theory Spec2Isabelle
  imports Main "HOL-Library.Word" "HOL-Library.Sublist" "HOL-Library.Multiset"
begin

section \<open>Platform values: strings and numbers\<close>

text \<open>
  A JavaScript string is a sequence of UTF-16 code units, and \<open>length\<close>, \<open>slice\<close>,
  \<open>trim\<close>, \<open>includes\<close> and \<open>replace\<close> all work on code units. A string is therefore a
  list of 16-bit words; \<open>str\<close> embeds an ASCII literal.
\<close>

type_synonym jschar = "16 word"
type_synonym jsstring = "jschar list"

definition str :: "string \<Rightarrow> jsstring" where
  "str s = map of_char s"

text \<open>
  The numbers the code computes with are integers or \<open>NaN\<close>: \<open>parseInt\<close> returns one or
  the other, and so does the difference of two \<open>getTime()\<close> values. (Integers beyond
  \<open>2^53\<close>, which a double rounds, are outside this model.)
\<close>

datatype jsnum = NaN | Num int

text \<open>\<open>a === b\<close> on numbers: \<open>NaN\<close> equals nothing, itself included.\<close>

fun strict_eq :: "jsnum \<Rightarrow> jsnum \<Rightarrow> bool" where
  "strict_eq (Num a) (Num b) = (a = b)"
| "strict_eq _ _ = False"

text \<open>\<open>Math.min(a, b)\<close>: \<open>NaN\<close> if either argument is \<open>NaN\<close>.\<close>

fun Math_min :: "jsnum \<Rightarrow> jsnum \<Rightarrow> jsnum" where
  "Math_min (Num a) (Num b) = Num (min a b)"
| "Math_min _ _ = NaN"

text \<open>\<open>a - b\<close> on numbers.\<close>

fun js_minus :: "jsnum \<Rightarrow> jsnum \<Rightarrow> jsnum" where
  "js_minus (Num a) (Num b) = Num (a - b)"
| "js_minus _ _ = NaN"

text \<open>
  ECMAScript's \<open>WhiteSpace\<close> and \<open>LineTerminator\<close> code points, the characters that
  \<open>String.prototype.trim\<close> and \<open>parseInt\<close> strip.
\<close>

definition isWhiteSpace :: "jschar \<Rightarrow> bool" where
  "isWhiteSpace c \<longleftrightarrow> c \<in> set [0x9, 0xA, 0xB, 0xC, 0xD, 0x20, 0xA0, 0x1680,
     0x2000, 0x2001, 0x2002, 0x2003, 0x2004, 0x2005, 0x2006, 0x2007, 0x2008, 0x2009, 0x200A,
     0x2028, 0x2029, 0x202F, 0x205F, 0x3000, 0xFEFF]"

definition trimStart :: "jsstring \<Rightarrow> jsstring" where
  "trimStart s = dropWhile isWhiteSpace s"

definition trimEnd :: "jsstring \<Rightarrow> jsstring" where
  "trimEnd s = rev (dropWhile isWhiteSpace (rev s))"

text \<open>\<open>s.trim()\<close> removes white space from both ends.\<close>

definition trim :: "jsstring \<Rightarrow> jsstring" where
  "trim s = trimEnd (trimStart s)"

text \<open>
  \<open>s.slice(start, end)\<close> for integer arguments: a negative index counts from the end,
  and both are clamped to \<open>[0, length]\<close>.
\<close>

definition slice :: "jsstring \<Rightarrow> int \<Rightarrow> int \<Rightarrow> jsstring" where
  "slice s start stop =
     (let len = int (length s);
          from = (if start < 0 then max (len + start) 0 else min start len);
          to = (if stop < 0 then max (len + stop) 0 else min stop len)
      in take (nat (to - from)) (drop (nat from) s))"

text \<open>\<open>s.includes(sub)\<close>: \<open>sub\<close> occurs in \<open>s\<close> as a contiguous run.\<close>

fun includes_str :: "jsstring \<Rightarrow> jsstring \<Rightarrow> bool" where
  "includes_str [] sub = (sub = [])"
| "includes_str (c # cs) sub = (prefix sub (c # cs) \<or> includes_str cs sub)"

text \<open>
  \<open>s.replace(pat, rep)\<close> with a string pattern replaces the first occurrence of \<open>pat\<close>,
  wherever it is, and nothing else. (The replacement strings of the code contain no
  \<open>$\<close> pattern.)
\<close>

fun replace :: "jsstring \<Rightarrow> jsstring \<Rightarrow> jsstring \<Rightarrow> jsstring" where
  "replace [] pat rep = (if pat = [] then rep else [])"
| "replace (c # cs) pat rep =
     (if prefix pat (c # cs) then rep @ drop (length pat) (c # cs)
      else c # replace cs pat rep)"

text \<open>The decimal digits of an integer, as a template literal prints it.\<close>

fun show_nat :: "nat \<Rightarrow> jsstring" where
  "show_nat n =
     (if n < 10 then [of_nat (48 + n)]
      else show_nat (n div 10) @ [of_nat (48 + n mod 10)])"

declare show_nat.simps [simp del]

definition show_int :: "int \<Rightarrow> jsstring" where
  "show_int i = (if i < 0 then str ''-'' @ show_nat (nat (- i)) else show_nat (nat i))"

text \<open>
  \<open>parseInt(s)\<close> without a radix: leading white space is skipped, then an optional sign,
  then an optional \<open>0x\<close>/\<open>0X\<close> that selects radix 16; the longest run of digits of the
  radix is the value, and no digit at all gives \<open>NaN\<close>. The value here is the exact
  integer; the code's is a double, which rounds it beyond \<open>2^53\<close>. Nothing below
  rests on such an input.
\<close>

definition digit_value :: "jschar \<Rightarrow> nat option" where
  "digit_value c =
     (if 0x30 \<le> c \<and> c \<le> 0x39 then Some (unat c - 0x30)
      else if 0x61 \<le> c \<and> c \<le> 0x7A then Some (unat c - 0x61 + 10)
      else if 0x41 \<le> c \<and> c \<le> 0x5A then Some (unat c - 0x41 + 10)
      else None)"

definition is_digit :: "nat \<Rightarrow> jschar \<Rightarrow> bool" where
  "is_digit R c = (case digit_value c of None \<Rightarrow> False | Some d \<Rightarrow> d < R)"

definition digits_value :: "nat \<Rightarrow> jsstring \<Rightarrow> nat" where
  "digits_value R Z =
     foldl (\<lambda>acc c. acc * R + (case digit_value c of None \<Rightarrow> 0 | Some d \<Rightarrow> d)) 0 Z"

definition parseInt :: "jsstring \<Rightarrow> jsnum" where
  "parseInt input =
     (let S = trimStart input;
          sign = (if S \<noteq> [] \<and> hd S = 0x2D then - 1 else 1 :: int);
          S1 = (if S \<noteq> [] \<and> (hd S = 0x2B \<or> hd S = 0x2D) then tl S else S);
          hex = (take 2 S1 = str ''0x'' \<or> take 2 S1 = str ''0X'');
          R = (if hex then 16 else 10);
          S2 = (if hex then drop 2 S1 else S1);
          Z = takeWhile (is_digit R) S2
      in if Z = [] then NaN else Num (sign * int (digits_value R Z)))"

section \<open>Query and transform utilities\<close>

text \<open>
  \<open>utils/article-utils.ts\<close> and \<open>utils/index.ts\<close>. An article is the interface
  \<open>SpaceflightArticle\<close> of \<open>types/spaceflight.ts\<close>.
\<close>

record article =
  article_id :: int
  title :: jsstring
  summary :: jsstring
  image_url :: jsstring
  news_site :: jsstring
  published_at :: jsstring
  url :: jsstring

subsection \<open>truncateText\<close>

text \<open>
  The same function in both modules:
  \<^verbatim>\<open>if (text.length <= maxLength) return text;
return text.slice(0, maxLength).trim() + "...";\<close>
\<close>

definition truncateText :: "jsstring \<Rightarrow> int \<Rightarrow> jsstring" where
  "truncateText text maxLength =
     (if int (length text) \<le> maxLength then text
      else trim (slice text 0 maxLength) @ str ''...'')"

text \<open>
  The reading of the specification: the first \<open>maxLength\<close> characters, right-trimmed,
  with an ellipsis appended.
\<close>

definition spec_truncate :: "jsstring \<Rightarrow> int \<Rightarrow> jsstring" where
  "spec_truncate text maxLength =
     (if int (length text) \<le> maxLength then text
      else trimEnd (take (nat maxLength) text) @ str ''...'')"

subsection \<open>filterArticlesBySearch\<close>

text \<open>
  \<open>toLowerCase\<close> is the platform's Unicode case mapping; the functions take it as a
  parameter. An empty string is the only falsy string, so \<open>!searchTerm.trim()\<close> holds
  exactly when the trimmed term is empty.

  \<open>utils/article-utils.ts\<close>: title, summary and news site are searched.
\<close>

definition filterArticlesBySearch ::
  "(jsstring \<Rightarrow> jsstring) \<Rightarrow> article list \<Rightarrow> jsstring \<Rightarrow> article list" where
  "filterArticlesBySearch toLowerCase articles searchTerm =
     (if trim searchTerm = [] then articles
      else
        let normalizedSearch = trim (toLowerCase searchTerm)
        in filter (\<lambda>article.
             let titleMatch = includes_str (toLowerCase (title article)) normalizedSearch;
                 summaryMatch = includes_str (toLowerCase (summary article)) normalizedSearch;
                 sourceMatch = includes_str (toLowerCase (news_site article)) normalizedSearch
             in titleMatch \<or> summaryMatch \<or> sourceMatch) articles)"

text \<open>\<open>utils/index.ts\<close>: only the title is searched.\<close>

definition index_filterArticlesBySearch ::
  "(jsstring \<Rightarrow> jsstring) \<Rightarrow> article list \<Rightarrow> jsstring \<Rightarrow> article list" where
  "index_filterArticlesBySearch toLowerCase articles searchTerm =
     (if trim searchTerm = [] then articles
      else
        let lowercaseSearch = toLowerCase (trim searchTerm)
        in filter (\<lambda>article. includes_str (toLowerCase (title article)) lowercaseSearch)
             articles)"

subsection \<open>sortArticles\<close>

text \<open>
  \<open>Array.prototype.sort\<close> sorts the array it is called on, in place, so whether
  \<open>sortArticles\<close> changes its argument depends on which array that is. Arrays live in a
  store, addressed by reference; \<open>[...articles]\<close> allocates a new one.
\<close>

type_synonym ref = nat
type_synonym store = "article list list"

definition lookup :: "store \<Rightarrow> ref \<Rightarrow> article list option" where
  "lookup h r = (if r < length h then Some (h ! r) else None)"

definition alloc :: "store \<Rightarrow> article list \<Rightarrow> ref \<times> store" where
  "alloc h xs = (length h, h @ [xs])"

text \<open>
  The sort is stable, and a comparator result of \<open>NaN\<close> counts as \<open>+0\<close> (ECMAScript,
  SortCompare). For a consistent comparator that fixes the result, which is what the
  stable insertion sort below computes. When the comparator is not consistent the
  standard leaves the order to the implementation; a comparison that yields \<open>0\<close> between
  the only two elements leaves them in place in every stable implementation. On longer
  lists with \<open>NaN\<close> comparisons an engine's order can differ from this function's;
  the theorems below use it only on lists whose time stamps all parse and on a list
  of two.
\<close>

definition SortCompare :: "('a \<Rightarrow> 'a \<Rightarrow> jsnum) \<Rightarrow> 'a \<Rightarrow> 'a \<Rightarrow> int" where
  "SortCompare comparefn x y = (case comparefn x y of NaN \<Rightarrow> 0 | Num v \<Rightarrow> v)"

fun insert_sorted :: "('a \<Rightarrow> 'a \<Rightarrow> jsnum) \<Rightarrow> 'a \<Rightarrow> 'a list \<Rightarrow> 'a list" where
  "insert_sorted comparefn x [] = [x]"
| "insert_sorted comparefn x (y # ys) =
     (if SortCompare comparefn x y \<le> 0 then x # y # ys
      else y # insert_sorted comparefn x ys)"

definition stable_sort :: "('a \<Rightarrow> 'a \<Rightarrow> jsnum) \<Rightarrow> 'a list \<Rightarrow> 'a list" where
  "stable_sort comparefn xs = foldr (insert_sorted comparefn) xs []"

definition Array_sort :: "(article \<Rightarrow> article \<Rightarrow> jsnum) \<Rightarrow> store \<Rightarrow> ref \<Rightarrow> store" where
  "Array_sort comparefn h r = h[r := stable_sort comparefn (h ! r)]"

text \<open>
  \<open>SortBy\<close> is \<open>"title" | "date"\<close>; \<open>OtherCriterion\<close> is any other value a caller forces
  through the type (the \<open>default\<close> branch).
\<close>

datatype SortBy = Title | Date | OtherCriterion

text \<open>
  \<open>getTime s\<close> is \<open>new Date(s).getTime()\<close>, \<open>NaN\<close> for a string that does not parse;
  \<open>localeCompare\<close> is the collation the module asks for (\<open>utils/index.ts\<close> the default
  one, \<open>utils/article-utils.ts\<close> English with base sensitivity). Both are the
  platform's. The date comparator is \<open>dateB.getTime() - dateA.getTime()\<close> in both
  modules. The result is the reference returned and the store after the call; it is
  \<open>None\<close> only for a reference that names no array.
\<close>

definition date_comparefn :: "(jsstring \<Rightarrow> jsnum) \<Rightarrow> article \<Rightarrow> article \<Rightarrow> jsnum" where
  "date_comparefn getTime a b =
     js_minus (getTime (published_at b)) (getTime (published_at a))"

definition title_comparefn ::
  "(jsstring \<Rightarrow> jsstring \<Rightarrow> int) \<Rightarrow> article \<Rightarrow> article \<Rightarrow> jsnum" where
  "title_comparefn localeCompare a b = Num (localeCompare (title a) (title b))"

definition sortArticles ::
  "(jsstring \<Rightarrow> jsnum) \<Rightarrow> (jsstring \<Rightarrow> jsstring \<Rightarrow> int) \<Rightarrow>
   store \<Rightarrow> ref \<Rightarrow> SortBy \<Rightarrow> (ref \<times> store) option" where
  "sortArticles getTime localeCompare h articles sortBy =
     (case lookup h articles of
        None \<Rightarrow> None
      | Some xs \<Rightarrow>
          let (sortedArticles, h') = alloc h xs
          in (case sortBy of
                Title \<Rightarrow>
                  Some (sortedArticles,
                        Array_sort (title_comparefn localeCompare) h' sortedArticles)
              | Date \<Rightarrow>
                  Some (sortedArticles,
                        Array_sort (date_comparefn getTime) h' sortedArticles)
              | OtherCriterion \<Rightarrow> Some (sortedArticles, h')))"

text \<open>
  The order the specification describes for the date criterion: newest first, an
  article whose timestamp does not parse counting as older than every other.
\<close>

fun not_older :: "jsnum \<Rightarrow> jsnum \<Rightarrow> bool" where
  "not_older _ NaN = True"
| "not_older NaN (Num t) = False"
| "not_older (Num s) (Num t) = (t \<le> s)"

definition spec_date_sorted :: "(jsstring \<Rightarrow> jsnum) \<Rightarrow> article list \<Rightarrow> bool" where
  "spec_date_sorted getTime xs =
     sorted_wrt (\<lambda>a b. not_older (getTime (published_at a)) (getTime (published_at b))) xs"

text \<open>Newest first, for timestamps that all parse.\<close>

definition time_of :: "(jsstring \<Rightarrow> jsnum) \<Rightarrow> article \<Rightarrow> int" where
  "time_of getTime a = (case getTime (published_at a) of NaN \<Rightarrow> 0 | Num t \<Rightarrow> t)"

definition parses :: "(jsstring \<Rightarrow> jsnum) \<Rightarrow> article \<Rightarrow> bool" where
  "parses getTime a = (getTime (published_at a) \<noteq> NaN)"

definition newest_first :: "(jsstring \<Rightarrow> jsnum) \<Rightarrow> article list \<Rightarrow> bool" where
  "newest_first getTime xs = sorted_wrt (\<lambda>a b. time_of getTime b \<le> time_of getTime a) xs"

subsection \<open>Dates\<close>

text \<open>
  \<open>toLocaleDateString t\<close> is the long en-US rendering of the time value \<open>t\<close>
  (\<open>"January 15, 2024"\<close>), the platform's. Neither the \<open>Date\<close> constructor nor this
  call throws, so the \<open>catch\<close> branches of the two functions are never taken.
\<close>

definition formatPublishedDate ::
  "(jsstring \<Rightarrow> jsnum) \<Rightarrow> (int \<Rightarrow> jsstring) \<Rightarrow> jsstring \<Rightarrow> jsstring" where
  "formatPublishedDate getTime toLocaleDateString dateString =
     (case getTime dateString of
        NaN \<Rightarrow> str ''Unknown date''
      | Num t \<Rightarrow> toLocaleDateString t)"

text \<open>
  \<open>now\<close> is \<open>new Date().getTime()\<close>. Time values are integers, and \<open>Math.floor(a / b)\<close>
  of two integers is the floor division \<open>div\<close>.
\<close>

definition formatRelativeTime ::
  "(jsstring \<Rightarrow> jsnum) \<Rightarrow> (int \<Rightarrow> jsstring) \<Rightarrow> int \<Rightarrow> jsstring \<Rightarrow> jsstring" where
  "formatRelativeTime getTime toLocaleDateString now dateString =
     (case getTime dateString of
        NaN \<Rightarrow> str ''Unknown date''
      | Num date \<Rightarrow>
          let diffInMs = now - date;
              diffInDays = diffInMs div (1000 * 60 * 60 * 24)
          in if diffInDays = 0 then
               (let diffInHours = diffInMs div (1000 * 60 * 60)
                in if diffInHours = 0 then
                     (let diffInMinutes = diffInMs div (1000 * 60)
                      in if diffInMinutes \<le> 1 then str ''Just now''
                         else show_int diffInMinutes @ str '' minutes ago'')
                   else if diffInHours = 1 then str ''1 hour ago''
                   else show_int diffInHours @ str '' hours ago'')
             else if diffInDays = 1 then str ''Yesterday''
             else if diffInDays < 7 then show_int diffInDays @ str '' days ago''
             else if diffInDays < 30 then
               (let weeks = diffInDays div 7
                in if weeks = 1 then str ''1 week ago''
                   else show_int weeks @ str '' weeks ago'')
             else formatPublishedDate getTime toLocaleDateString dateString)"

text \<open>
  The buckets as the specification words them, over the elapsed milliseconds:
  under a minute, under an hour, under a day, one day, two to six days, seven to
  twenty-nine days, thirty days and more.
\<close>

definition spec_relative ::
  "(jsstring \<Rightarrow> jsnum) \<Rightarrow> (int \<Rightarrow> jsstring) \<Rightarrow> int \<Rightarrow> jsstring \<Rightarrow> jsstring" where
  "spec_relative getTime toLocaleDateString now dateString =
     (case getTime dateString of
        NaN \<Rightarrow> str ''Unknown date''
      | Num date \<Rightarrow>
          let elapsed = now - date;
              days = elapsed div 86400000
          in if elapsed < 60000 then str ''Just now''
             else if elapsed < 3600000 then show_int (elapsed div 60000) @ str '' minutes ago''
             else if elapsed < 86400000 then
               (if elapsed div 3600000 = 1 then str ''1 hour ago''
                else show_int (elapsed div 3600000) @ str '' hours ago'')
             else if days = 1 then str ''Yesterday''
             else if days < 7 then show_int days @ str '' days ago''
             else if days < 30 then
               (if days div 7 = 1 then str ''1 week ago''
                else show_int (days div 7) @ str '' weeks ago'')
             else formatPublishedDate getTime toLocaleDateString dateString)"

subsection \<open>extractDomain\<close>

text \<open>
  \<open>URL u\<close> is the platform's \<open>new URL(u)\<close>: \<open>None\<close> when the constructor throws, the
  parsed parts otherwise.
\<close>

record parsed_url =
  protocol :: jsstring
  hostname :: jsstring

definition extractDomain :: "(jsstring \<Rightarrow> parsed_url option) \<Rightarrow> jsstring \<Rightarrow> jsstring" where
  "extractDomain URL u =
     (case URL u of
        None \<Rightarrow> str ''Unknown source''
      | Some parsedUrl \<Rightarrow> replace (hostname parsedUrl) (str ''www.'') [])"

text \<open>The specification's reading: only a leading \<open>www.\<close> goes.\<close>

definition strip_leading_www :: "jsstring \<Rightarrow> jsstring" where
  "strip_leading_www h = (if prefix (str ''www.'') h then drop 4 h else h)"

section \<open>API client\<close>

text \<open>
  \<open>services/spaceflight-api.ts\<close>. What a \<open>throw\<close> carries: a \<open>SpaceflightApiError\<close>
  (message, optional status, optional code), another \<open>Error\<close> (name and message), or a
  value that is not an \<open>Error\<close> at all.
\<close>

datatype thrown =
    SpaceflightApiError jsstring "int option" "jsstring option"
  | JsError jsstring jsstring
  | NonError

record http_response =
  status :: int
  statusText :: jsstring
  body :: jsstring

text \<open>\<open>response.ok\<close>: the status is in the range 200 to 299.\<close>

definition ok :: "http_response \<Rightarrow> bool" where
  "ok response \<longleftrightarrow> 200 \<le> status response \<and> status response \<le> 299"

datatype fetch_outcome = Resolved http_response | Rejected thrown

text \<open>
  One network attempt: the outcome \<open>fetch\<close> would settle with if left alone, and the
  milliseconds it takes to. \<open>makeRequest\<close> arms a timer of 10000 ms that aborts the
  controller whose signal the \<open>fetch\<close> carries; when the timer runs before the
  \<open>fetch\<close> has settled, the \<open>fetch\<close> rejects with an error named \<open>AbortError\<close>.
  (A \<open>fetch\<close> that would settle at the very millisecond the timer is due counts as
  aborted.)
\<close>

record attempt =
  settles_after :: nat
  outcome :: fetch_outcome

definition timeout_ms :: nat where
  "timeout_ms = 10000"

definition await_fetch :: "attempt \<Rightarrow> fetch_outcome" where
  "await_fetch a =
     (if settles_after a < timeout_ms then outcome a
      else Rejected (JsError (str ''AbortError'') (str ''This operation was aborted'')))"

text \<open>
  The \<open>catch\<close> block of \<open>makeRequest\<close>: what it throws for what it caught.
\<close>

fun makeRequest_catch :: "thrown \<Rightarrow> thrown" where
  "makeRequest_catch (SpaceflightApiError m s c) = SpaceflightApiError m s c"
| "makeRequest_catch (JsError name message) =
     (if name = str ''AbortError''
      then SpaceflightApiError (str ''Request timeout'') (Some 408) (Some (str ''TIMEOUT''))
      else SpaceflightApiError (str ''Network error: '' @ message) (Some 0)
             (Some (str ''NETWORK_ERROR'')))"
| "makeRequest_catch NonError =
     SpaceflightApiError (str ''Unknown error occurred'') (Some 0) (Some (str ''UNKNOWN_ERROR''))"

text \<open>
  \<open>makeRequest\<close>: the \<open>try\<close> block either returns the response or throws (the HTTP
  error it raises itself, or whatever \<open>fetch\<close> rejected with), and every throw goes
  through the \<open>catch\<close> block.
\<close>

definition makeRequest :: "attempt \<Rightarrow> thrown + http_response" where
  "makeRequest a =
     (let tried =
        (case await_fetch a of
           Resolved response \<Rightarrow>
             if \<not> ok response
             then Inl (SpaceflightApiError
                         (str ''HTTP error! status: '' @ show_int (status response))
                         (Some (status response)) (Some (statusText response)))
             else Inr response
         | Rejected error \<Rightarrow> Inl error)
      in case tried of
           Inr response \<Rightarrow> Inr response
         | Inl error \<Rightarrow> Inl (makeRequest_catch error))"

section \<open>Page data loader\<close>

text \<open>\<open>routes/_index.tsx\<close>. The envelope is \<open>ArticlesLoaderData\<close>.\<close>

record meta =
  total :: nat
  hasMore :: bool
  loadedAt :: jsstring

record ArticlesLoaderData =
  articles :: "article list"
  error :: "jsstring option"
  meta :: meta

record loader_response =
  http_status :: int
  headers :: "(jsstring \<times> jsstring) list"
  data :: ArticlesLoaderData

text \<open>
  \<open>limitParam\<close> is \<open>url.searchParams.get("limit")\<close>: \<open>None\<close> for \<open>null\<close>.
  \<open>v || "20"\<close> is \<open>"20"\<close> when \<open>v\<close> is \<open>null\<close> or the empty string.
\<close>

definition loader_limit :: "jsstring option \<Rightarrow> jsnum" where
  "loader_limit limitParam =
     Math_min
       (parseInt (case limitParam of
                    None \<Rightarrow> str ''20''
                  | Some v \<Rightarrow> if v = [] then str ''20'' else v))
       (Num 50)"

text \<open>\<open>error.status || 500\<close>: \<open>undefined\<close> and \<open>0\<close> are falsy.\<close>

definition status_or_500 :: "int option \<Rightarrow> int" where
  "status_or_500 s = (case s of None \<Rightarrow> 500 | Some n \<Rightarrow> if n = 0 then 500 else n)"

text \<open>
  The loader, given what \<open>fetchLatestArticles\<close> does for each limit (articles, or the
  value it throws), the \<open>limit\<close> query parameter and the time stamp
  \<open>new Date().toISOString()\<close>. Its result records the arguments it called
  \<open>fetchLatestArticles\<close> with, beside the response.
\<close>

record loader_run =
  fetch_calls :: "jsnum list"
  response :: loader_response

definition loader ::
  "(jsnum \<Rightarrow> thrown + article list) \<Rightarrow> jsstring option \<Rightarrow> jsstring \<Rightarrow> loader_run" where
  "loader fetchLatestArticles limitParam loadedAt' =
     (let limit = loader_limit limitParam
      in case fetchLatestArticles limit of
           Inr articles' \<Rightarrow>
             \<lparr>fetch_calls = [limit],
              response =
                \<lparr>http_status = 200,
                 headers =
                   [(str ''Content-Type'', str ''application/json''),
                    (str ''Cache-Control'',
                     str ''public, max-age=300, stale-while-revalidate=600'')],
                 data =
                   \<lparr>articles = articles',
                    error = None,
                    meta =
                      \<lparr>total = length articles',
                       hasMore = strict_eq (Num (int (length articles'))) limit,
                       loadedAt = loadedAt'\<rparr>\<rparr>\<rparr>\<rparr>
         | Inl thrown_error \<Rightarrow>
             let (errorMessage, statusCode, retryAfter) =
                   (case thrown_error of
                      SpaceflightApiError message st code \<Rightarrow>
                        (message, status_or_500 st,
                         if st = Some 429 \<or> st = Some 503 then Some (60 :: int) else None)
                    | JsError name message \<Rightarrow> (message, 500, None)
                    | NonError \<Rightarrow> (str ''Failed to load articles'', 500, None));
                 fallbackData =
                   \<lparr>articles = [],
                    error = Some errorMessage,
                    meta = \<lparr>total = 0, hasMore = False, loadedAt = loadedAt'\<rparr>\<rparr>;
                 headers' =
                   (str ''Cache-Control'', str ''no-cache, no-store, must-revalidate'')
                   # (case retryAfter of
                        None \<Rightarrow> []
                      | Some n \<Rightarrow> [(str ''Retry-After'', show_int n)])
             in \<lparr>fetch_calls = [limit],
                 response =
                   \<lparr>http_status = (if statusCode \<ge> 500 then 500 else 200),
                    headers = (str ''Content-Type'', str ''application/json'') # headers',
                    data = fallbackData\<rparr>\<rparr>)"

section \<open>Sample platform behaviour\<close>

text \<open>
  Concrete inputs for the examples below: the articles of the test suites, and the
  values the platform functions take on the strings those examples use (each table
  is a stand-in outside its entries; dates are rendered in UTC, and
  \<open>ascii_toLowerCase\<close> is \<open>toLowerCase\<close> on ASCII strings).
\<close>

definition ascii_toLowerCase :: "jsstring \<Rightarrow> jsstring" where
  "ascii_toLowerCase s = map (\<lambda>c. if 0x41 \<le> c \<and> c \<le> 0x5A then c + 0x20 else c) s"

definition sample_getTime :: "jsstring \<Rightarrow> jsnum" where
  "sample_getTime s =
     (case map_of
        [(str ''2024-01-15T10:00:00Z'', 1705312800000),
         (str ''2024-01-10T15:30:00Z'', 1704900600000),
         (str ''2024-01-20T08:45:00Z'', 1705740300000)] s of
        None \<Rightarrow> NaN
      | Some t \<Rightarrow> Num t)"

definition sample_toLocaleDateString :: "int \<Rightarrow> jsstring" where
  "sample_toLocaleDateString t =
     (if t = 1705312800000 then str ''January 15, 2024''
      else if t = 1704900600000 then str ''January 10, 2024''
      else if t = 1705740300000 then str ''January 20, 2024''
      else [])"

fun sample_localeCompare :: "jsstring \<Rightarrow> jsstring \<Rightarrow> int" where
  "sample_localeCompare [] [] = 0"
| "sample_localeCompare [] (b # bs) = - 1"
| "sample_localeCompare (a # as) [] = 1"
| "sample_localeCompare (a # as) (b # bs) =
     (if a < b then - 1 else if b < a then 1 else sample_localeCompare as bs)"

definition sample_URL :: "jsstring \<Rightarrow> parsed_url option" where
  "sample_URL u =
     map_of
       [(str ''https://www.example.com/path'',
         \<lparr>protocol = str ''https:'', hostname = str ''www.example.com''\<rparr>),
        (str ''https://example.com/path'',
         \<lparr>protocol = str ''https:'', hostname = str ''example.com''\<rparr>),
        (str ''https://api.www.example.com/path'',
         \<lparr>protocol = str ''https:'', hostname = str ''api.www.example.com''\<rparr>)] u"

definition spacex :: article where
  "spacex =
     \<lparr>article_id = 1,
      title = str ''SpaceX Launches Starship'',
      summary = str ''SpaceX successfully launched its Starship rocket'',
      image_url = str ''https://example.com/spacex.jpg'',
      news_site = str ''Space News'',
      published_at = str ''2024-01-15T10:00:00Z'',
      url = str ''https://spacenews.com/article1''\<rparr>"

definition nasa :: article where
  "nasa =
     \<lparr>article_id = 2,
      title = str ''NASA Mars Mission Update'',
      summary = str ''NASA provides update on Mars exploration mission'',
      image_url = str ''https://example.com/nasa.jpg'',
      news_site = str ''NASA News'',
      published_at = str ''2024-01-10T15:30:00Z'',
      url = str ''https://nasa.gov/article2''\<rparr>"

definition blueorigin :: article where
  "blueorigin =
     \<lparr>article_id = 3,
      title = str ''Blue Origin Test Flight'',
      summary = str ''Blue Origin conducts successful test flight'',
      image_url = str ''https://example.com/blueorigin.jpg'',
      news_site = str ''Aviation Week'',
      published_at = str ''2024-01-20T08:45:00Z'',
      url = str ''https://aviationweek.com/article3''\<rparr>"

text \<open>An article whose time stamp does not parse.\<close>

definition undated :: article where
  "undated = spacex\<lparr>article_id := 4, published_at := str ''invalid-date''\<rparr>"

definition mockArticles :: "article list" where
  "mockArticles = [spacex, nasa, blueorigin]"

text \<open>What the test suites let \<open>fetchLatestArticles\<close> do.\<close>

definition fetch_resolves :: "jsnum \<Rightarrow> thrown + article list" where
  "fetch_resolves limit = Inr mockArticles"

definition fetch_bad_request :: "jsnum \<Rightarrow> thrown + article list" where
  "fetch_bad_request limit = Inl (SpaceflightApiError (str ''Bad request'') (Some 400) None)"

definition fetch_unavailable :: "jsnum \<Rightarrow> thrown + article list" where
  "fetch_unavailable limit =
     Inl (SpaceflightApiError (str ''API is down'') (Some 503) (Some (str ''SERVICE_UNAVAILABLE'')))"

text \<open>Network attempts: one too slow, one answered 404, one refused, one answered 200.\<close>

definition attempt_slow :: attempt where
  "attempt_slow =
     \<lparr>settles_after = 12000,
      outcome = Resolved \<lparr>status = 200, statusText = str ''OK'', body = str ''{}''\<rparr>\<rparr>"

definition attempt_not_found :: attempt where
  "attempt_not_found =
     \<lparr>settles_after = 120,
      outcome = Resolved \<lparr>status = 404, statusText = str ''Not Found'', body = str ''''\<rparr>\<rparr>"

definition attempt_refused :: attempt where
  "attempt_refused =
     \<lparr>settles_after = 5,
      outcome = Rejected (JsError (str ''TypeError'') (str ''fetch failed''))\<rparr>"

definition attempt_ok :: attempt where
  "attempt_ok =
     \<lparr>settles_after = 120,
      outcome = Resolved \<lparr>status = 200, statusText = str ''OK'', body = str ''{}''\<rparr>\<rparr>"

section \<open>Facts about the platform values\<close>

lemma trimEnd_Cons:
  "trimEnd (c # cs) = (if isWhiteSpace c \<and> trimEnd cs = [] then [] else c # trimEnd cs)"
  by (auto simp: trimEnd_def dropWhile_append)

text \<open>Trimming the two ends in either order gives the same string.\<close>

lemma trimStart_trimEnd: "trimEnd (trimStart s) = trimStart (trimEnd s)"
proof (induction s)
  case Nil
  show ?case by (simp add: trimEnd_def trimStart_def)
next
  case (Cons c cs)
  show ?case
  proof (cases "isWhiteSpace c")
    case True
    then have "trimEnd (trimStart (c # cs)) = trimEnd (trimStart cs)"
      by (simp add: trimStart_def)
    also have "\<dots> = trimStart (trimEnd cs)" by (rule Cons.IH)
    also have "\<dots> = trimStart (trimEnd (c # cs))"
      using True by (simp add: trimEnd_Cons) (simp add: trimStart_def)
    finally show ?thesis .
  next
    case False
    then show ?thesis by (simp add: trimEnd_Cons) (simp add: trimStart_def trimEnd_Cons)
  qed
qed

lemma trim_blank: "trim (str ''   '') = []"
  by (simp add: trim_def trimStart_def trimEnd_def str_def isWhiteSpace_def)

lemma slice_prefix: "0 \<le> n \<Longrightarrow> slice s 0 n = take (nat n) s"
  by (simp add: slice_def Let_def min_def)

lemma slice_negative: "n < 0 \<Longrightarrow> slice s 0 n = take (length s - nat (- n)) s"
  by (auto simp add: slice_def Let_def max_def intro!: arg_cong2[where f=take])

lemma replace_prefix: "prefix pat s \<Longrightarrow> replace s pat rep = rep @ drop (length pat) s"
  by (cases s) auto

lemma show_int_small:
  "show_int 1 = str ''1''" "show_int 2 = str ''2''" "show_int 3 = str ''3''"
  "show_int 60 = str ''60''" "show_int (- 1) = str ''-1''" "show_int 404 = str ''404''"
  by (simp_all add: show_int_def show_nat.simps str_def)

lemma parseInt_values:
  "parseInt (str ''20'') = Num 20"
  "parseInt (str ''100'') = Num 100"
  "parseInt (str ''15'') = Num 15"
  "parseInt (str ''3'') = Num 3"
  "parseInt (str ''abc'') = NaN"
  by (simp_all add: parseInt_def Let_def trimStart_def isWhiteSpace_def str_def is_digit_def
      digit_value_def digits_value_def)

lemma sample_times:
  "sample_getTime (published_at spacex) = Num 1705312800000"
  "sample_getTime (published_at nasa) = Num 1704900600000"
  "sample_getTime (published_at blueorigin) = Num 1705740300000"
  "sample_getTime (published_at undated) = NaN"
  by (simp_all add: sample_getTime_def spacex_def nasa_def blueorigin_def undated_def str_def)

lemma sample_time_spacex:
  "sample_getTime (str ''2024-01-15T10:00:00Z'') = Num 1705312800000"
  by (simp add: sample_getTime_def str_def)

lemma sample_time_invalid: "sample_getTime (str ''invalid-date'') = NaN"
  by (simp add: sample_getTime_def str_def)

lemma sample_URL_values:
  "sample_URL (str ''https://www.example.com/path'')
     = Some \<lparr>protocol = str ''https:'', hostname = str ''www.example.com''\<rparr>"
  "sample_URL (str ''https://api.www.example.com/path'')
     = Some \<lparr>protocol = str ''https:'', hostname = str ''api.www.example.com''\<rparr>"
  "sample_URL (str ''not-a-url'') = None"
  by (simp_all add: sample_URL_def str_def)

section \<open>The loader\<close>

lemma loader_calls: "fetch_calls (loader f p t) = [loader_limit p]"
  by (simp add: loader_def Let_def split: sum.splits prod.splits)

lemma loader_limit_values:
  "loader_limit None = Num 20"
  "loader_limit (Some []) = Num 20"
  "loader_limit (Some (str ''100'')) = Num 50"
  "loader_limit (Some (str ''15'')) = Num 15"
  "loader_limit (Some (str ''3'')) = Num 3"
  "loader_limit (Some (str ''abc'')) = NaN"
proof -
  have ne: "str ''100'' \<noteq> []" "str ''15'' \<noteq> []" "str ''3'' \<noteq> []" "str ''abc'' \<noteq> []"
    by (simp_all add: str_def)
  show "loader_limit None = Num 20" "loader_limit (Some []) = Num 20"
    by (simp_all add: loader_limit_def parseInt_values)
  show "loader_limit (Some (str ''100'')) = Num 50"
    "loader_limit (Some (str ''15'')) = Num 15"
    "loader_limit (Some (str ''3'')) = Num 3"
    "loader_limit (Some (str ''abc'')) = NaN"
    using ne by (simp_all add: loader_limit_def parseInt_values)
qed

text \<open>Whatever the request, the limit is \<open>NaN\<close> or at most 50.\<close>

lemma loader_limit_cap: "loader_limit p = NaN \<or> (\<exists>n. loader_limit p = Num n \<and> n \<le> 50)"
proof (cases "parseInt (case p of None \<Rightarrow> str ''20'' | Some v \<Rightarrow> if v = [] then str ''20'' else v)")
  case NaN
  then show ?thesis by (simp add: loader_limit_def)
next
  case (Num n)
  then show ?thesis by (simp add: loader_limit_def)
qed

text \<open>
  C1. When \<open>fetchLatestArticles\<close> throws, the response has status 500 if the thrown
  error carries no status, status 0 or a status of 500 and more (and if it is not a
  \<open>SpaceflightApiError\<close> at all), and status 200 if it carries a status from 400 to
  499; in every case the body is the envelope with no articles, a total of 0 and the
  error message set.
\<close>

theorem loader_failure_status:
  assumes "fetchLatestArticles (loader_limit p) = Inl e"
  shows "let r = response (loader fetchLatestArticles p t) in
      (\<forall>m st c. e = SpaceflightApiError m st c \<longrightarrow>
         error (data r) = Some m \<and>
         (st = None \<or> st = Some 0 \<longrightarrow> http_status r = 500) \<and>
         (\<forall>n. st = Some n \<and> 500 \<le> n \<longrightarrow> http_status r = 500) \<and>
         (\<forall>n. st = Some n \<and> 400 \<le> n \<and> n < 500 \<longrightarrow> http_status r = 200)) \<and>
      (\<forall>name m. e = JsError name m \<longrightarrow> error (data r) = Some m \<and> http_status r = 500) \<and>
      (e = NonError \<longrightarrow>
         error (data r) = Some (str ''Failed to load articles'') \<and> http_status r = 500) \<and>
      articles (data r) = [] \<and>
      total (meta (data r)) = 0 \<and>
      \<not> hasMore (meta (data r)) \<and>
      loadedAt (meta (data r)) = t"
  using assms
  by (cases e) (auto simp: loader_def Let_def status_or_500_def)

theorem loader_failure_status_witness:
  "fetch_bad_request (loader_limit None)
     = Inl (SpaceflightApiError (str ''Bad request'') (Some 400) None) \<and>
   http_status (response (loader fetch_bad_request None [])) = 200 \<and>
   error (data (response (loader fetch_bad_request None []))) = Some (str ''Bad request'') \<and>
   fetch_unavailable (loader_limit None)
     = Inl (SpaceflightApiError (str ''API is down'') (Some 503)
             (Some (str ''SERVICE_UNAVAILABLE''))) \<and>
   http_status (response (loader fetch_unavailable None [])) = 500 \<and>
   error (data (response (loader fetch_unavailable None []))) = Some (str ''API is down'')"
  using loader_failure_status [of fetch_bad_request None
          "SpaceflightApiError (str ''Bad request'') (Some 400) None" "[]"]
        loader_failure_status [of fetch_unavailable None
          "SpaceflightApiError (str ''API is down'') (Some 503)
             (Some (str ''SERVICE_UNAVAILABLE''))" "[]"]
  by (simp add: fetch_bad_request_def fetch_unavailable_def Let_def)

text \<open>
  C2. The request \<open>?limit=abc\<close>: \<open>parseInt("abc")\<close> is \<open>NaN\<close>, \<open>Math.min(NaN, 50)\<close> is
  \<open>NaN\<close>, and \<open>fetchLatestArticles\<close> is called with \<open>NaN\<close>, not with 20.
\<close>

theorem loader_limit_unparseable:
  "loader_limit (Some (str ''abc'')) = NaN \<and>
   fetch_calls (loader fetch_resolves (Some (str ''abc'')) (str ''2024-01-15T10:00:00.000Z''))
     = [NaN] \<and>
   NaN \<noteq> Num 20"
  by (simp add: loader_calls loader_limit_values)

text \<open>\<open>articles.length === limit\<close> holds exactly when the limit is that very integer.\<close>

lemma strict_eq_Num: "strict_eq (Num a) l \<longleftrightarrow> l = Num a"
  by (cases l) auto

text \<open>
  C3. In every envelope \<open>meta.total\<close> is the number of articles, and articles and
  error are never both there: after a throw there are no articles, an error, a total
  of 0 and \<open>hasMore\<close> false; after a success there is no error and \<open>hasMore\<close> is
  true exactly when the resolved limit is the number of articles returned (so it is
  false whenever the limit is \<open>NaN\<close>).
\<close>

theorem loader_envelope_invariant:
  "let env = data (response (loader fetchLatestArticles p t)) in
     total (meta env) = length (articles env) \<and>
     \<not> (articles env \<noteq> [] \<and> error env \<noteq> None) \<and>
     (\<forall>e. fetchLatestArticles (loader_limit p) = Inl e \<longrightarrow>
        articles env = [] \<and> error env \<noteq> None \<and> total (meta env) = 0 \<and>
        \<not> hasMore (meta env)) \<and>
     (\<forall>as. fetchLatestArticles (loader_limit p) = Inr as \<longrightarrow>
        articles env = as \<and> error env = None \<and>
        (hasMore (meta env) \<longleftrightarrow> loader_limit p = Num (int (length as))))"
  by (cases "fetchLatestArticles (loader_limit p)")
     (auto simp: loader_def Let_def strict_eq_Num split: thrown.splits)

theorem loader_envelope_invariant_witness:
  "fetch_resolves (loader_limit (Some (str ''3''))) = Inr mockArticles \<and>
   loader_limit (Some (str ''3'')) = Num (int (length mockArticles)) \<and>
   articles (data (response (loader fetch_resolves (Some (str ''3'')) []))) = mockArticles \<and>
   error (data (response (loader fetch_resolves (Some (str ''3'')) []))) = None \<and>
   total (meta (data (response (loader fetch_resolves (Some (str ''3'')) [])))) = 3 \<and>
   hasMore (meta (data (response (loader fetch_resolves (Some (str ''3'')) [])))) \<and>
   fetch_resolves (loader_limit None) = Inr mockArticles \<and>
   loader_limit None = Num 20 \<and>
   total (meta (data (response (loader fetch_resolves None [])))) = 3 \<and>
   \<not> hasMore (meta (data (response (loader fetch_resolves None [])))) \<and>
   loader_limit (Some (str ''abc'')) = NaN \<and>
   \<not> hasMore (meta (data (response (loader fetch_resolves (Some (str ''abc'')) [])))) \<and>
   fetch_unavailable (loader_limit None)
     = Inl (SpaceflightApiError (str ''API is down'') (Some 503)
             (Some (str ''SERVICE_UNAVAILABLE''))) \<and>
   articles (data (response (loader fetch_unavailable None []))) = [] \<and>
   error (data (response (loader fetch_unavailable None []))) \<noteq> None \<and>
   \<not> hasMore (meta (data (response (loader fetch_unavailable None []))))"
  using loader_envelope_invariant [of fetch_resolves "Some (str ''3'')" "[]"]
        loader_envelope_invariant [of fetch_resolves None "[]"]
        loader_envelope_invariant [of fetch_resolves "Some (str ''abc'')" "[]"]
        loader_envelope_invariant [of fetch_unavailable None "[]"]
  by (simp add: fetch_resolves_def fetch_unavailable_def Let_def loader_limit_values
      mockArticles_def)

section \<open>The API client\<close>

lemma makeRequest_catch_typed: "\<exists>m s c. makeRequest_catch x = SpaceflightApiError m s c"
  by (cases x) auto

text \<open>
  C4. Every failure of \<open>makeRequest\<close> is a \<open>SpaceflightApiError\<close>. When the 10000 ms
  timer runs while the request is in flight, it has status 408 and code \<open>TIMEOUT\<close>;
  when a response arrives in time with a status outside 200 to 299, it carries that
  status and the status text as its code; when the \<open>fetch\<close> rejects in time with any
  other error, it has status 0 and code \<open>NETWORK_ERROR\<close> and its message wraps the
  error's. A response with a status from 200 to 299 is returned.
\<close>

theorem makeRequest_errors:
  "(timeout_ms \<le> settles_after a \<longrightarrow>
      makeRequest a =
        Inl (SpaceflightApiError (str ''Request timeout'') (Some 408) (Some (str ''TIMEOUT'')))) \<and>
   (settles_after a < timeout_ms \<longrightarrow>
      (\<forall>r. outcome a = Resolved r \<longrightarrow>
         (ok r \<longrightarrow> makeRequest a = Inr r) \<and>
         (\<not> ok r \<longrightarrow>
            makeRequest a =
              Inl (SpaceflightApiError (str ''HTTP error! status: '' @ show_int (status r))
                     (Some (status r)) (Some (statusText r))))) \<and>
      (\<forall>name message.
         outcome a = Rejected (JsError name message) \<and> name \<noteq> str ''AbortError'' \<longrightarrow>
         makeRequest a =
           Inl (SpaceflightApiError (str ''Network error: '' @ message) (Some 0)
                  (Some (str ''NETWORK_ERROR''))))) \<and>
   (\<forall>e. makeRequest a = Inl e \<longrightarrow> (\<exists>m s c. e = SpaceflightApiError m s c))"
proof (intro conjI impI allI)
  fix e
  assume "makeRequest a = Inl e"
  then show "\<exists>m s c. e = SpaceflightApiError m s c"
    using makeRequest_catch_typed
    by (auto simp: makeRequest_def Let_def split: fetch_outcome.splits if_splits)
qed (auto simp: makeRequest_def await_fetch_def)

theorem makeRequest_errors_witness:
  "timeout_ms \<le> settles_after attempt_slow \<and>
   makeRequest attempt_slow =
     Inl (SpaceflightApiError (str ''Request timeout'') (Some 408) (Some (str ''TIMEOUT''))) \<and>
   settles_after attempt_not_found < timeout_ms \<and>
   makeRequest attempt_not_found =
     Inl (SpaceflightApiError (str ''HTTP error! status: 404'') (Some 404)
            (Some (str ''Not Found''))) \<and>
   settles_after attempt_refused < timeout_ms \<and>
   makeRequest attempt_refused =
     Inl (SpaceflightApiError (str ''Network error: fetch failed'') (Some 0)
            (Some (str ''NETWORK_ERROR''))) \<and>
   makeRequest attempt_ok = Inr \<lparr>status = 200, statusText = str ''OK'', body = str ''{}''\<rparr>"
  using makeRequest_errors [of attempt_slow] makeRequest_errors [of attempt_not_found]
    makeRequest_errors [of attempt_refused] makeRequest_errors [of attempt_ok]
  by (simp add: attempt_slow_def attempt_not_found_def attempt_refused_def attempt_ok_def
      timeout_ms_def ok_def show_int_small)
     (simp add: str_def)

section \<open>The utilities\<close>

text \<open>
  C5. A search term that trims to the empty string leaves the list as it is, in the
  title, summary and site search of \<open>article-utils.ts\<close> and in the title search of
  \<open>index.ts\<close>.
\<close>

theorem filterArticlesBySearch_blank:
  assumes "trim searchTerm = []"
  shows "filterArticlesBySearch toLowerCase arts searchTerm = arts \<and>
         index_filterArticlesBySearch toLowerCase arts searchTerm = arts"
  using assms by (simp add: filterArticlesBySearch_def index_filterArticlesBySearch_def)

theorem filterArticlesBySearch_blank_witness:
  "trim (str ''   '') = [] \<and>
   filterArticlesBySearch ascii_toLowerCase mockArticles (str ''   '') = mockArticles \<and>
   index_filterArticlesBySearch ascii_toLowerCase mockArticles (str ''   '') = mockArticles"
  using filterArticlesBySearch_blank [OF trim_blank, of ascii_toLowerCase mockArticles]
    trim_blank
  by simp

text \<open>
  C10. Whatever the search term, the result of either filter is a subsequence of the
  list: elements of the list, in the order of the list, none twice.
\<close>

theorem filterArticlesBySearch_subseq:
  "subseq (filterArticlesBySearch toLowerCase arts searchTerm) arts \<and>
   subseq (index_filterArticlesBySearch toLowerCase arts searchTerm) arts"
  by (simp add: filterArticlesBySearch_def index_filterArticlesBySearch_def Let_def)

lemma filter_nasa:
  "filterArticlesBySearch ascii_toLowerCase mockArticles (str ''NASA'') = [nasa]"
  by (simp add: filterArticlesBySearch_def trim_def trimStart_def trimEnd_def isWhiteSpace_def
      ascii_toLowerCase_def mockArticles_def spacex_def nasa_def blueorigin_def str_def)

theorem filterArticlesBySearch_subseq_witness:
  "filterArticlesBySearch ascii_toLowerCase mockArticles (str ''NASA'') = [nasa] \<and>
   subseq [nasa] mockArticles"
  using filterArticlesBySearch_subseq [of ascii_toLowerCase mockArticles "str ''NASA''"]
  by (simp add: filter_nasa)

subsection \<open>Sorting by date\<close>

lemma mset_insert_sorted: "mset (insert_sorted f x ys) = add_mset x (mset ys)"
  by (induction ys) auto

lemma mset_stable_sort: "mset (stable_sort f xs) = mset xs"
  unfolding stable_sort_def by (induction xs) (auto simp: mset_insert_sorted)

lemma set_insert_sorted: "set (insert_sorted f x ys) = insert x (set ys)"
  using mset_insert_sorted [of f x ys] by (metis set_mset_add_mset_insert set_mset_mset)

text \<open>Between two time stamps that parse, the comparator is the difference of the times.\<close>

lemma SortCompare_date:
  assumes "parses g a" "parses g b"
  shows "SortCompare (date_comparefn g) a b = time_of g b - time_of g a"
  using assms
  by (cases "g (published_at a)"; cases "g (published_at b)")
     (simp_all add: SortCompare_def date_comparefn_def parses_def time_of_def)

lemma newest_first_insert:
  assumes "newest_first g ys" "parses g x" "\<forall>y\<in>set ys. parses g y"
  shows "newest_first g (insert_sorted (date_comparefn g) x ys)"
  using assms
proof (induction ys)
  case Nil
  then show ?case by (simp add: newest_first_def)
next
  case (Cons y ys)
  have cmp: "SortCompare (date_comparefn g) x y = time_of g y - time_of g x"
    using Cons.prems by (simp add: SortCompare_date)
  show ?case
  proof (cases "time_of g y \<le> time_of g x")
    case True
    then show ?thesis using Cons.prems cmp by (fastforce simp: newest_first_def)
  next
    case False
    have "newest_first g (insert_sorted (date_comparefn g) x ys)"
      using Cons by (simp add: newest_first_def)
    then show ?thesis using Cons.prems cmp False
      by (auto simp: newest_first_def set_insert_sorted)
  qed
qed

lemma newest_first_stable_sort:
  "\<forall>a\<in>set xs. parses g a \<Longrightarrow> newest_first g (stable_sort (date_comparefn g) xs)"
proof (induction xs)
  case Nil
  then show ?case by (simp add: stable_sort_def newest_first_def)
next
  case (Cons x xs)
  have "newest_first g (stable_sort (date_comparefn g) xs)" using Cons by simp
  moreover have "\<forall>y\<in>set (stable_sort (date_comparefn g) xs). parses g y"
    using Cons.prems mset_stable_sort [of "date_comparefn g" xs]
    by (metis list.set_intros(2) set_mset_mset)
  ultimately show ?case using Cons.prems
    by (simp add: stable_sort_def newest_first_insert)
qed

text \<open>
  C6, as the code has it. \<open>sortArticles\<close> returns a new array and changes no array
  that existed before the call, its argument included, whatever the criterion; the
  new array holds the articles of the argument; and for the date criterion, when
  every time stamp parses, it is in non-increasing order of time, newest first.
  (Nothing is said here of a list in which some time stamp does not parse.)
\<close>

theorem sortArticles_copy_sorted:
  assumes "lookup h input = Some xs"
  shows "\<exists>sortedArticles h' ys.
           sortArticles getTime localeCompare h input sortBy = Some (sortedArticles, h') \<and>
           sortedArticles \<noteq> input \<and>
           lookup h' input = Some xs \<and>
           (\<forall>r. r < length h \<longrightarrow> lookup h' r = lookup h r) \<and>
           lookup h' sortedArticles = Some ys \<and>
           mset ys = mset xs \<and>
           (sortBy = Date \<and> (\<forall>a\<in>set xs. parses getTime a) \<longrightarrow> newest_first getTime ys)"
proof -
  from assms have lt: "input < length h" and xs: "xs = h ! input"
    by (auto simp: lookup_def split: if_splits)
  show ?thesis
  proof (cases sortBy)
    case Title
    then show ?thesis using lt xs assms
      by (simp add: sortArticles_def alloc_def Array_sort_def lookup_def nth_append
          mset_stable_sort)
  next
    case Date
    then show ?thesis using lt xs assms
      by (simp add: sortArticles_def alloc_def Array_sort_def lookup_def nth_append
          mset_stable_sort newest_first_stable_sort)
  next
    case OtherCriterion
    then show ?thesis using lt xs assms
      by (simp add: sortArticles_def alloc_def lookup_def nth_append)
  qed
qed

lemma sortArticles_mock:
  "sortArticles sample_getTime sample_localeCompare [mockArticles] 0 Date
     = Some (1, [mockArticles, [blueorigin, spacex, nasa]])"
  by (simp add: sortArticles_def lookup_def alloc_def Array_sort_def stable_sort_def
      SortCompare_def date_comparefn_def sample_times mockArticles_def)

theorem sortArticles_copy_sorted_witness:
  "lookup [mockArticles] 0 = Some mockArticles \<and>
   parses sample_getTime spacex \<and> parses sample_getTime nasa \<and>
   parses sample_getTime blueorigin \<and>
   sortArticles sample_getTime sample_localeCompare [mockArticles] 0 Date
     = Some (1, [mockArticles, [blueorigin, spacex, nasa]]) \<and>
   lookup [mockArticles, [blueorigin, spacex, nasa]] 0 = Some mockArticles \<and>
   newest_first sample_getTime [blueorigin, spacex, nasa]"
  using sortArticles_copy_sorted
          [of "[mockArticles]" 0 mockArticles sample_getTime sample_localeCompare Date]
  by (simp add: sortArticles_mock lookup_def parses_def sample_times)
     (simp add: mockArticles_def parses_def sample_times)

text \<open>
  C6, as stated, fails. The comparator yields \<open>NaN\<close> whenever one of the two time
  stamps does not parse, and the sort takes that for "equal": an article without a
  date stays where it is, here ahead of a dated one, instead of counting as oldest.
\<close>

theorem sortArticles_unparseable_counterexample:
  "sortArticles sample_getTime sample_localeCompare [[undated, spacex]] 0 Date
     = Some (1, [[undated, spacex], [undated, spacex]]) \<and>
   sample_getTime (published_at undated) = NaN \<and>
   sample_getTime (published_at spacex) = Num 1705312800000 \<and>
   \<not> spec_date_sorted sample_getTime [undated, spacex]"
  by (simp add: sortArticles_def lookup_def alloc_def Array_sort_def stable_sort_def
      SortCompare_def date_comparefn_def sample_times spec_date_sorted_def)

text \<open>
  With three articles the insertion sort leaves even the two dated ones out of order.
\<close>

lemma sortArticles_unparseable_between:
  "sortArticles sample_getTime sample_localeCompare [[nasa, undated, spacex]] 0 Date
     = Some (1, [[nasa, undated, spacex], [nasa, undated, spacex]])"
  by (simp add: sortArticles_def lookup_def alloc_def Array_sort_def stable_sort_def
      SortCompare_def date_comparefn_def sample_times)

subsection \<open>Truncating\<close>

text \<open>A negative \<open>maxLength\<close> cuts that many characters off the end.\<close>

lemma truncateText_negative:
  "n < 0 \<Longrightarrow> truncateText text n = trim (take (length text - nat (- n)) text) @ str ''...''"
  by (simp add: truncateText_def slice_negative)

text \<open>
  C7, as the code has it. For \<open>maxLength \<ge> 0\<close>: a text no longer than \<open>maxLength\<close> is
  returned unchanged; otherwise the result is the first \<open>maxLength\<close> characters with
  white space removed at both ends, the leading as well as the trailing, followed by
  three dots.
\<close>

theorem truncateText_both_ends:
  "(int (length text) \<le> n \<longrightarrow> truncateText text n = text) \<and>
   (0 \<le> n \<and> n < int (length text) \<longrightarrow>
      truncateText text n = trimStart (trimEnd (take (nat n) text)) @ str ''...'')"
  by (simp add: truncateText_def slice_prefix trim_def trimStart_trimEnd)

theorem truncateText_both_ends_witness:
  "int (length (str ''Short text'')) \<le> 20 \<and>
   truncateText (str ''Short text'') 20 = str ''Short text'' \<and>
   (0::int) \<le> 5 \<and> 5 < int (length (str ''  hello world'')) \<and>
   truncateText (str ''  hello world'') 5 = str ''hel...''"
  using truncateText_both_ends [of "str ''Short text''" 20]
    truncateText_both_ends [of "str ''  hello world''" 5]
  by (simp add: str_def trimStart_def trimEnd_def isWhiteSpace_def)

text \<open>
  C7, as stated, fails: \<open>trim\<close> also removes leading white space, which a right trim
  keeps; and for a negative \<open>maxLength\<close> the slice is counted from the end.
\<close>

theorem truncateText_counterexample:
  "truncateText (str ''  hello world'') 5 = str ''hel...'' \<and>
   spec_truncate (str ''  hello world'') 5 = str ''  hel...'' \<and>
   truncateText (str ''  hello world'') 5 \<noteq> spec_truncate (str ''  hello world'') 5 \<and>
   truncateText (str ''hello'') (- 1) = str ''hell...'' \<and>
   spec_truncate (str ''hello'') (- 1) = str ''...''"
  by (simp add: truncateText_def spec_truncate_def slice_def trim_def trimStart_def
      trimEnd_def isWhiteSpace_def str_def)

subsection \<open>Relative time\<close>

lemma bucket_iff:
  fixes e :: int
  shows "0 \<le> e \<Longrightarrow> e div 86400000 = 0 \<longleftrightarrow> e < 86400000"
    and "0 \<le> e \<Longrightarrow> e div 3600000 = 0 \<longleftrightarrow> e < 3600000"
    and "e div 60000 \<le> 1 \<longleftrightarrow> e < 120000"
    and "e div 3600000 = 1 \<longleftrightarrow> 3600000 \<le> e \<and> e < 7200000"
    and "e div 86400000 = 1 \<longleftrightarrow> 86400000 \<le> e \<and> e < 172800000"
    and "e div 86400000 < 7 \<longleftrightarrow> e < 604800000"
    and "e div 86400000 < 30 \<longleftrightarrow> e < 2592000000"
    and "e div 86400000 div 7 = 1 \<longleftrightarrow> 604800000 \<le> e \<and> e < 1209600000"
  by linarith+

text \<open>
  C8, as the code has it. A time stamp that does not parse gives \<open>"Unknown date"\<close>.
  For one that parses and is not in the future, with \<open>e\<close> the milliseconds elapsed:
  under two minutes \<open>"Just now"\<close>; from two minutes to under an hour \<open>"N minutes ago"\<close>;
  from one hour to under two \<open>"1 hour ago"\<close>, then to under a day \<open>"N hours ago"\<close>;
  from one day to under two \<open>"Yesterday"\<close>; from two days to under seven
  \<open>"N days ago"\<close>; from seven days to under fourteen \<open>"1 week ago"\<close>, then to under
  thirty \<open>"N weeks ago"\<close>; from thirty days on, the absolute date.
\<close>

theorem formatRelativeTime_buckets:
  "(getTime s = NaN \<longrightarrow>
      formatRelativeTime getTime toLocaleDateString now s = str ''Unknown date'') \<and>
   (\<forall>t. getTime s = Num t \<and> 0 \<le> now - t \<longrightarrow>
      (let e = now - t; r = formatRelativeTime getTime toLocaleDateString now s in
       (e < 120000 \<longrightarrow> r = str ''Just now'') \<and>
       (120000 \<le> e \<and> e < 3600000 \<longrightarrow> r = show_int (e div 60000) @ str '' minutes ago'') \<and>
       (3600000 \<le> e \<and> e < 7200000 \<longrightarrow> r = str ''1 hour ago'') \<and>
       (7200000 \<le> e \<and> e < 86400000 \<longrightarrow> r = show_int (e div 3600000) @ str '' hours ago'') \<and>
       (86400000 \<le> e \<and> e < 172800000 \<longrightarrow> r = str ''Yesterday'') \<and>
       (172800000 \<le> e \<and> e < 604800000 \<longrightarrow> r = show_int (e div 86400000) @ str '' days ago'') \<and>
       (604800000 \<le> e \<and> e < 1209600000 \<longrightarrow> r = str ''1 week ago'') \<and>
       (1209600000 \<le> e \<and> e < 2592000000 \<longrightarrow>
          r = show_int (e div 86400000 div 7) @ str '' weeks ago'') \<and>
       (2592000000 \<le> e \<longrightarrow> r = formatPublishedDate getTime toLocaleDateString s)))"
proof (intro conjI allI impI)
  assume "getTime s = NaN"
  then show "formatRelativeTime getTime toLocaleDateString now s = str ''Unknown date''"
    by (simp add: formatRelativeTime_def)
next
  fix t
  assume a: "getTime s = Num t \<and> 0 \<le> now - t"
  then have g: "getTime s = Num t" and e0: "0 \<le> now - t" by simp_all
  show "let e = now - t; r = formatRelativeTime getTime toLocaleDateString now s in
       (e < 120000 \<longrightarrow> r = str ''Just now'') \<and>
       (120000 \<le> e \<and> e < 3600000 \<longrightarrow> r = show_int (e div 60000) @ str '' minutes ago'') \<and>
       (3600000 \<le> e \<and> e < 7200000 \<longrightarrow> r = str ''1 hour ago'') \<and>
       (7200000 \<le> e \<and> e < 86400000 \<longrightarrow> r = show_int (e div 3600000) @ str '' hours ago'') \<and>
       (86400000 \<le> e \<and> e < 172800000 \<longrightarrow> r = str ''Yesterday'') \<and>
       (172800000 \<le> e \<and> e < 604800000 \<longrightarrow> r = show_int (e div 86400000) @ str '' days ago'') \<and>
       (604800000 \<le> e \<and> e < 1209600000 \<longrightarrow> r = str ''1 week ago'') \<and>
       (1209600000 \<le> e \<and> e < 2592000000 \<longrightarrow>
          r = show_int (e div 86400000 div 7) @ str '' weeks ago'') \<and>
       (2592000000 \<le> e \<longrightarrow> r = formatPublishedDate getTime toLocaleDateString s)"
    unfolding Let_def formatRelativeTime_def g jsnum.case
    using e0 by (simp add: bucket_iff)
qed

lemma show_int_more:
  "show_int 5 = str ''5''"
  by (simp_all add: show_int_def show_nat.simps str_def)

theorem formatRelativeTime_buckets_witness:
  "sample_getTime (str ''invalid-date'') = NaN \<and>
   formatRelativeTime sample_getTime sample_toLocaleDateString 1705312800000
     (str ''invalid-date'') = str ''Unknown date'' \<and>
   sample_getTime (str ''2024-01-15T10:00:00Z'') = Num 1705312800000 \<and>
   formatRelativeTime sample_getTime sample_toLocaleDateString (1705312800000 + 90000)
     (str ''2024-01-15T10:00:00Z'') = str ''Just now'' \<and>
   formatRelativeTime sample_getTime sample_toLocaleDateString (1705312800000 + 300000)
     (str ''2024-01-15T10:00:00Z'') = str ''5 minutes ago'' \<and>
   formatRelativeTime sample_getTime sample_toLocaleDateString (1705312800000 + 3600000)
     (str ''2024-01-15T10:00:00Z'') = str ''1 hour ago'' \<and>
   formatRelativeTime sample_getTime sample_toLocaleDateString (1705312800000 + 7200000)
     (str ''2024-01-15T10:00:00Z'') = str ''2 hours ago'' \<and>
   formatRelativeTime sample_getTime sample_toLocaleDateString (1705312800000 + 86400000)
     (str ''2024-01-15T10:00:00Z'') = str ''Yesterday'' \<and>
   formatRelativeTime sample_getTime sample_toLocaleDateString (1705312800000 + 259200000)
     (str ''2024-01-15T10:00:00Z'') = str ''3 days ago'' \<and>
   formatRelativeTime sample_getTime sample_toLocaleDateString (1705312800000 + 604800000)
     (str ''2024-01-15T10:00:00Z'') = str ''1 week ago'' \<and>
   formatRelativeTime sample_getTime sample_toLocaleDateString (1705312800000 + 1209600000)
     (str ''2024-01-15T10:00:00Z'') = str ''2 weeks ago'' \<and>
   formatRelativeTime sample_getTime sample_toLocaleDateString (1705312800000 + 5184000000)
     (str ''2024-01-15T10:00:00Z'') = str ''January 15, 2024''"
  using
    formatRelativeTime_buckets [of sample_getTime "str ''invalid-date''"
      sample_toLocaleDateString 1705312800000]
    formatRelativeTime_buckets [of sample_getTime "str ''2024-01-15T10:00:00Z''"
      sample_toLocaleDateString "1705312800000 + 90000"]
    formatRelativeTime_buckets [of sample_getTime "str ''2024-01-15T10:00:00Z''"
      sample_toLocaleDateString "1705312800000 + 300000"]
    formatRelativeTime_buckets [of sample_getTime "str ''2024-01-15T10:00:00Z''"
      sample_toLocaleDateString "1705312800000 + 3600000"]
    formatRelativeTime_buckets [of sample_getTime "str ''2024-01-15T10:00:00Z''"
      sample_toLocaleDateString "1705312800000 + 7200000"]
    formatRelativeTime_buckets [of sample_getTime "str ''2024-01-15T10:00:00Z''"
      sample_toLocaleDateString "1705312800000 + 86400000"]
    formatRelativeTime_buckets [of sample_getTime "str ''2024-01-15T10:00:00Z''"
      sample_toLocaleDateString "1705312800000 + 259200000"]
    formatRelativeTime_buckets [of sample_getTime "str ''2024-01-15T10:00:00Z''"
      sample_toLocaleDateString "1705312800000 + 604800000"]
    formatRelativeTime_buckets [of sample_getTime "str ''2024-01-15T10:00:00Z''"
      sample_toLocaleDateString "1705312800000 + 1209600000"]
    formatRelativeTime_buckets [of sample_getTime "str ''2024-01-15T10:00:00Z''"
      sample_toLocaleDateString "1705312800000 + 5184000000"]
  by (simp add: sample_time_spacex sample_time_invalid show_int_small show_int_more
      formatPublishedDate_def sample_toLocaleDateString_def)
     (simp add: str_def)

text \<open>
  C8, as stated, fails. Between one and two minutes the code still says
  \<open>"Just now"\<close>, where the buckets of the specification give \<open>"1 minutes ago"\<close>; and a
  time stamp one millisecond in the future, which is less than a minute of elapsed
  time, gives \<open>"-1 days ago"\<close>.
\<close>

theorem formatRelativeTime_counterexample:
  "formatRelativeTime sample_getTime sample_toLocaleDateString (1705312800000 + 90000)
     (str ''2024-01-15T10:00:00Z'') = str ''Just now'' \<and>
   spec_relative sample_getTime sample_toLocaleDateString (1705312800000 + 90000)
     (str ''2024-01-15T10:00:00Z'') = str ''1 minutes ago'' \<and>
   str ''Just now'' \<noteq> str ''1 minutes ago'' \<and>
   formatRelativeTime sample_getTime sample_toLocaleDateString (1705312800000 - 1)
     (str ''2024-01-15T10:00:00Z'') = str ''-1 days ago'' \<and>
   spec_relative sample_getTime sample_toLocaleDateString (1705312800000 - 1)
     (str ''2024-01-15T10:00:00Z'') = str ''Just now''"
  by (simp add: formatRelativeTime_def spec_relative_def sample_time_spacex show_int_small)
     (simp add: str_def)

subsection \<open>The domain of a URL\<close>

lemma extractDomain_parse_failure:
  "URL u = None \<Longrightarrow> extractDomain URL u = str ''Unknown source''"
  by (simp add: extractDomain_def)

lemma extractDomain_leading_www:
  "URL u = Some p \<Longrightarrow> prefix (str ''www.'') (hostname p) \<Longrightarrow>
   extractDomain URL u = drop 4 (hostname p)"
  by (simp add: extractDomain_def replace_prefix) (simp add: str_def numeral_eq_Suc)

lemma extractDomain_examples:
  "extractDomain sample_URL (str ''https://www.example.com/path'') = str ''example.com''"
  "extractDomain sample_URL (str ''not-a-url'') = str ''Unknown source''"
  by (simp_all add: extractDomain_def sample_URL_values) (simp add: str_def)

text \<open>
  C9. \<open>replace("www.", "")\<close> removes the first \<open>www.\<close> wherever it stands. For the
  URL \<open>https://api.www.example.com/path\<close> the host name is \<open>api.www.example.com\<close>,
  which has no leading \<open>www.\<close>, and the code returns \<open>api.example.com\<close>.
\<close>

theorem extractDomain_inner_www:
  "extractDomain sample_URL (str ''https://api.www.example.com/path'') = str ''api.example.com'' \<and>
   strip_leading_www (str ''api.www.example.com'') = str ''api.www.example.com'' \<and>
   str ''api.example.com'' \<noteq> str ''api.www.example.com''"
  by (simp add: extractDomain_def sample_URL_values strip_leading_www_def) (simp add: str_def)

end
